theory Spec2Isabelle
  imports Complex_Main "HOL-Library.Multiset"
begin

section \<open>JavaScript values and strings\<close>

text \<open>
  A field of a row received from the remote service is either absent (\<open>undefined\<close>),
  SQL NULL (\<open>null\<close>) or a value. Strict inequality \<open>!==\<close> on such fields is
  inequality of \<open>jsval\<close>: \<open>null !== undefined\<close> holds, as in JavaScript.
\<close>

datatype 'a jsval = Undefined | Null | Val 'a

text \<open>\<open>s || d\<close> for a string field: the field when it is a non-empty string, else \<open>d\<close>.\<close>

fun str_or :: "string jsval \<Rightarrow> string \<Rightarrow> string" where
  "str_or (Val s) d = (if s = [] then d else s)"
| "str_or Undefined d = d"
| "str_or Null d = d"

fun nonempty :: "string jsval \<Rightarrow> bool" where
  "nonempty (Val s) = (s \<noteq> [])"
| "nonempty Undefined = False"
| "nonempty Null = False"

text \<open>\<open>n || 0\<close> for a numeric field.\<close>

fun num_or_zero :: "'a::zero jsval \<Rightarrow> 'a" where
  "num_or_zero (Val n) = n"
| "num_or_zero Undefined = 0"
| "num_or_zero Null = 0"

text \<open>\<open>String.prototype.split(c)\<close> for a one-character separator: never empty.\<close>

fun split_on :: "char \<Rightarrow> string \<Rightarrow> string list" where
  "split_on c [] = [[]]"
| "split_on c (x # xs) =
     (if x = c then [] # split_on c xs
      else (case split_on c xs of [] \<Rightarrow> [[x]] | w # ws \<Rightarrow> (x # w) # ws))"

text \<open>\<open>name.split('.').pop()\<close>\<close>

definition split_pop :: "string \<Rightarrow> string" where
  "split_pop name = last (split_on (CHR ''.'') name)"

text \<open>
  \<open>toLowerCase\<close> on the ASCII letters (the extensions and emotion labels are ASCII):
  a capital letter, code 65 to 90, gets code + 32, which sets bit 5.
\<close>

fun lower_char :: "char \<Rightarrow> char" where
  "lower_char (Char b0 b1 b2 b3 b4 b5 b6 b7) =
     (let n = (of_char (Char b0 b1 b2 b3 b4 b5 b6 b7) :: nat)
      in if 65 \<le> n \<and> n \<le> 90 then Char b0 b1 b2 b3 b4 True b6 b7
         else Char b0 b1 b2 b3 b4 b5 b6 b7)"

definition toLowerCase :: "string \<Rightarrow> string" where
  "toLowerCase s = map lower_char s"

text \<open>Decimal rendering of an array index, as a template literal prints it.\<close>

definition digit_char :: "nat \<Rightarrow> char" where
  "digit_char d = ''0123456789'' ! d"

fun show_nat :: "nat \<Rightarrow> string" where
  "show_nat n = (if n < 10 then [digit_char n] else show_nat (n div 10) @ [digit_char (n mod 10)])"

declare show_nat.simps [simp del]

section \<open>Rows of the remote tables\<close>

text \<open>
  \<open>marker_jobs\<close> and \<open>text_annotations\<close> as the front end reads them. The schema
  (MARKER_INTEGRATION_SETUP.md) makes \<open>position\<close> an \<open>INTEGER NOT NULL\<close> and gives
  \<open>status\<close> the default \<open>'pending'\<close> and \<open>progress\<close> the default \<open>0\<close>.
\<close>

record job =
  id_j :: string
  file_path :: string
  file_name :: string
  file_size :: nat
  file_type :: string
  status :: "string jsval"
  progress :: "int jsval"
  extracted_text :: "string jsval"
  markdown_output :: "string jsval"
  options :: "(string \<times> bool) list"
  error_message :: "string jsval"
  created_at :: nat

record annotation =
  id_a :: string
  job_id :: string
  text_a :: string
  position :: int
  sentiment_score :: "rat jsval"
  emotion :: "string jsval"

record upload_file =
  name :: string
  size_f :: nat

datatype error = RemoteError string | TypeError string

record supabase =
  storage_documents :: "string list"
  marker_jobs :: "job list"
  text_annotations :: "annotation list"

text \<open>
  The remote service is outside the repository. Each call takes the answer of the
  network as a parameter (\<open>fault\<close>: the \<open>error\<close> field of the response, when the
  call failed); a call that is answered acts on the tables.
\<close>

text \<open>\<open>storage.from('documents').upload(path, file, {upsert: false})\<close>\<close>

definition storage_upload :: "error option \<Rightarrow> string \<Rightarrow> supabase \<Rightarrow> error option \<times> supabase" where
  "storage_upload fault path db =
     (case fault of
        Some e \<Rightarrow> (Some e, db)
      | None \<Rightarrow>
          if path \<in> set (storage_documents db)
          then (Some (RemoteError ''The resource already exists''), db)
          else (None, db\<lparr>storage_documents := storage_documents db @ [path]\<rparr>))"

text \<open>
  The payload of the insert in \<open>uploadAndProcess\<close>: the seven fields the code sends.
  The row the table stores takes its \<open>id\<close> from the database (\<open>new_id\<close>) and the
  columns the payload leaves out from the schema defaults: \<open>progress\<close> is \<open>0\<close>, the
  text columns are NULL.
\<close>

record job_payload =
  p_file_path :: string
  p_file_name :: string
  p_file_size :: nat
  p_file_type :: string
  p_status :: string
  p_options :: "(string \<times> bool) list"
  p_created_at :: nat

definition row_of_payload :: "string \<Rightarrow> job_payload \<Rightarrow> job" where
  "row_of_payload new_id p =
     \<lparr>id_j = new_id, file_path = p_file_path p, file_name = p_file_name p,
      file_size = p_file_size p, file_type = p_file_type p, status = Val (p_status p),
      progress = Val 0, extracted_text = Null, markdown_output = Null,
      options = p_options p, error_message = Null, created_at = p_created_at p\<rparr>"

text \<open>\<open>from('marker_jobs').insert(payload).select().single()\<close>\<close>

definition insert_job :: "error option \<Rightarrow> string \<Rightarrow> job_payload \<Rightarrow> supabase \<Rightarrow> (error + job) \<times> supabase" where
  "insert_job fault new_id p db =
     (case fault of
        Some e \<Rightarrow> (Inl e, db)
      | None \<Rightarrow>
          (let row = row_of_payload new_id p
           in (Inr row, db\<lparr>marker_jobs := marker_jobs db @ [row]\<rparr>)))"

text \<open>\<open>from('marker_jobs').select(...).eq('id', jobId).single()\<close>: exactly one row, or an error.\<close>

definition select_single_job :: "error option \<Rightarrow> string \<Rightarrow> supabase \<Rightarrow> error + job" where
  "select_single_job fault jobId db =
     (case fault of
        Some e \<Rightarrow> Inl e
      | None \<Rightarrow>
          (case filter (\<lambda>j. id_j j = jobId) (marker_jobs db) of
             [j] \<Rightarrow> Inr j
           | _ \<Rightarrow> Inl (RemoteError ''JSON object requested, multiple (or no) rows returned'')))"

text \<open>\<open>from('text_annotations').select('*').eq('job_id', jobId).order('position', {ascending: true})\<close>\<close>

definition select_annotations :: "error option \<Rightarrow> string \<Rightarrow> supabase \<Rightarrow> error + annotation list" where
  "select_annotations fault jobId db =
     (case fault of
        Some e \<Rightarrow> Inl e
      | None \<Rightarrow> Inr (sort_key position (filter (\<lambda>a. job_id a = jobId) (text_annotations db))))"

text \<open>\<open>from('marker_jobs').update({status: 'cancelled', ...}).eq('id', jobId)\<close>\<close>

definition update_cancelled :: "error option \<Rightarrow> string \<Rightarrow> supabase \<Rightarrow> error option \<times> supabase" where
  "update_cancelled fault jobId db =
     (case fault of
        Some e \<Rightarrow> (Some e, db)
      | None \<Rightarrow>
          (None, db\<lparr>marker_jobs :=
             map (\<lambda>j. if id_j j = jobId then j\<lparr>status := Val ''cancelled''\<rparr> else j) (marker_jobs db)\<rparr>))"

section \<open>MarkerEngineService\<close>

record queue_entry =
  q_status :: string
  q_progress :: int
  startTime :: nat

record marker_service =
  processingQueue :: "string \<rightharpoonup> queue_entry"
  annotationCache :: "string \<rightharpoonup> annotation list"

text \<open>
  \<open>uploadAndProcess(file, options)\<close>. \<open>t_name\<close>, \<open>t_created\<close> and \<open>t_start\<close> are the three
  clock readings; \<open>up_fault\<close> and \<open>job_fault\<close> the answers to the two remote calls. A
  \<open>throw\<close> is \<open>Inl\<close>; the service and the remote state are returned as they are then.
\<close>

definition uploadAndProcess ::
  "nat \<Rightarrow> nat \<Rightarrow> nat \<Rightarrow> error option \<Rightarrow> error option \<Rightarrow> string \<Rightarrow> upload_file \<Rightarrow> (string \<times> bool) list
     \<Rightarrow> marker_service \<Rightarrow> supabase \<Rightarrow> (error + job) \<times> marker_service \<times> supabase" where
  "uploadAndProcess t_name t_created t_start up_fault job_fault new_id f opts svc db =
     (let fileExt = split_pop (name f);
          fileName = show_nat t_name @ ''_'' @ name f;
          filePath = ''documents/'' @ fileName
      in case storage_upload up_fault filePath db of
           (Some uploadError, db1) \<Rightarrow> (Inl uploadError, svc, db1)
         | (None, db1) \<Rightarrow>
             (case insert_job job_fault new_id
                     \<lparr>p_file_path = filePath, p_file_name = name f, p_file_size = size_f f,
                      p_file_type = fileExt, p_status = ''pending'', p_options = opts,
                      p_created_at = t_created\<rparr> db1 of
                (Inl jobError, db2) \<Rightarrow> (Inl jobError, svc, db2)
              | (Inr jobData, db2) \<Rightarrow>
                  (Inr jobData,
                   svc\<lparr>processingQueue := (processingQueue svc)
                          (id_j jobData \<mapsto> \<lparr>q_status = ''pending'', q_progress = 0, startTime = t_start\<rparr>)\<rparr>,
                   db2)))"

definition getExtractedText :: "error option \<Rightarrow> string \<Rightarrow> supabase \<Rightarrow> error + string" where
  "getExtractedText fault jobId db =
     (case select_single_job fault jobId db of
        Inl e \<Rightarrow> Inl e
      | Inr data \<Rightarrow> Inr (str_or (extracted_text data) (str_or (markdown_output data) [])))"

definition getAnnotations ::
  "error option \<Rightarrow> string \<Rightarrow> marker_service \<Rightarrow> supabase \<Rightarrow> (error + annotation list) \<times> marker_service" where
  "getAnnotations fault jobId svc db =
     (case annotationCache svc jobId of
        Some cached \<Rightarrow> (Inr cached, svc)
      | None \<Rightarrow>
          (case select_annotations fault jobId db of
             Inl e \<Rightarrow> (Inl e, svc)
           | Inr data \<Rightarrow> (Inr data, svc\<lparr>annotationCache := (annotationCache svc)(jobId \<mapsto> data)\<rparr>)))"

definition cancelJob ::
  "error option \<Rightarrow> string \<Rightarrow> marker_service \<Rightarrow> supabase \<Rightarrow> (error + bool) \<times> marker_service \<times> supabase" where
  "cancelJob fault jobId svc db =
     (case update_cancelled fault jobId db of
        (Some e, db1) \<Rightarrow> (Inl e, svc, db1)
      | (None, db1) \<Rightarrow> (Inr True, svc\<lparr>processingQueue := (processingQueue svc)(jobId := None)\<rparr>, db1))"

section \<open>DocumentUploadComponent: validation\<close>

record upload_options =
  maxFileSize :: nat
  allowedTypes :: "string list"

text \<open>The two error notifications of \<open>validateFile\<close>, by what they report.\<close>

datatype upload_notice = TypeNotSupported string | FileTooLarge string nat

text \<open>\<open>validateFile(file)\<close>: the verdict and the notification shown on rejection.\<close>

definition validateFile :: "upload_options \<Rightarrow> upload_file \<Rightarrow> bool \<times> upload_notice list" where
  "validateFile opts f =
     (let fileExt = toLowerCase (split_pop (name f))
      in if fileExt \<notin> set (allowedTypes opts)
         then (False, [TypeNotSupported fileExt])
         else if size_f f > maxFileSize opts
         then (False, [FileTooLarge (name f) (maxFileSize opts)])
         else (True, []))"

section \<open>RealtimeAnnotationsService\<close>

text \<open>
  A raw row-change event: \<open>payload.new\<close>, \<open>payload.old\<close> (absent on an insert; on an
  update it holds the columns the change feed sends, the others \<open>Undefined\<close>) and
  \<open>payload.eventType\<close>.
\<close>

record payload =
  new_row :: job
  old_row :: "job option"
  eventType :: string

text \<open>The argument objects of the three job callbacks.\<close>

record status_event =
  se_jobId :: string
  oldStatus :: "string jsval"
  newStatus :: "string jsval"
  se_data :: job

record progress_event =
  pe_jobId :: string
  pe_progress :: "int jsval"
  pe_data :: job

record job_event =
  je_jobId :: string
  je_eventType :: string
  je_data :: job
  oldData :: "job option"

text \<open>
  The handler map passed to \<open>subscribeToJob\<close>. A handler is a callback of the caller:
  it acts on the caller's state \<open>'s\<close>; a handler that is not registered is \<open>None\<close>.
  The three annotation handlers of the map are read by \<open>handleAnnotationInsert\<close> and
  \<open>handleAnnotationUpdate\<close> only and are left out.
\<close>

record 's handlers =
  onStatusChange :: "(status_event \<Rightarrow> 's \<Rightarrow> 's) option"
  onProgressUpdate :: "(progress_event \<Rightarrow> 's \<Rightarrow> 's) option"
  onJobUpdate :: "(job_event \<Rightarrow> 's \<Rightarrow> 's) option"
  onConnectionChange :: "(bool \<Rightarrow> 's \<Rightarrow> 's) option"

text \<open>\<open>oldData?.status\<close> and \<open>oldData?.progress\<close>\<close>

definition old_status :: "job option \<Rightarrow> string jsval" where
  "old_status od = (case od of None \<Rightarrow> Undefined | Some r \<Rightarrow> status r)"

definition old_progress :: "job option \<Rightarrow> int jsval" where
  "old_progress od = (case od of None \<Rightarrow> Undefined | Some r \<Rightarrow> progress r)"

definition handleJobUpdate :: "string \<Rightarrow> payload \<Rightarrow> 's handlers \<Rightarrow> 's \<Rightarrow> 's" where
  "handleJobUpdate jobId p h s =
     (let newData = new_row p; od = old_row p;
          s1 = (if status newData \<noteq> old_status od
                then (case onStatusChange h of
                        Some f \<Rightarrow> f \<lparr>se_jobId = jobId, oldStatus = old_status od,
                                     newStatus = status newData, se_data = newData\<rparr> s
                      | None \<Rightarrow> s)
                else s);
          s2 = (if progress newData \<noteq> old_progress od
                then (case onProgressUpdate h of
                        Some g \<Rightarrow> g \<lparr>pe_jobId = jobId, pe_progress = progress newData,
                                     pe_data = newData\<rparr> s1
                      | None \<Rightarrow> s1)
                else s1)
      in (case onJobUpdate h of
            Some k \<Rightarrow> k \<lparr>je_jobId = jobId, je_eventType = eventType p, je_data = newData,
                         oldData = od\<rparr> s2
          | None \<Rightarrow> s2))"

text \<open>
  The realtime client of the remote library: a channel handle is the topic it was opened
  on and its identity. The client keeps the channels that are open and, here, the
  sequence of calls it received.
\<close>

record channel =
  topic :: string
  handle :: nat

datatype client_call = OpenChannel channel | RemoveChannel channel

record realtime_client =
  live_channels :: "channel list"
  calls :: "client_call list"

text \<open>\<open>supabase.channel(topic).on(...).on(...).on(...).subscribe(cb)\<close>: a new handle.\<close>

definition open_channel :: "string \<Rightarrow> realtime_client \<Rightarrow> channel \<times> realtime_client" where
  "open_channel tp cl =
     (let ch = \<lparr>topic = tp, handle = length (calls cl)\<rparr>
      in (ch, cl\<lparr>live_channels := live_channels cl @ [ch], calls := calls cl @ [OpenChannel ch]\<rparr>))"

text \<open>\<open>supabase.removeChannel(channel)\<close>; \<open>fault\<close> is the error it throws, if any.\<close>

definition removeChannel :: "error option \<Rightarrow> channel \<Rightarrow> realtime_client \<Rightarrow> error option \<times> realtime_client" where
  "removeChannel fault ch cl =
     (case fault of
        Some e \<Rightarrow> (Some e, cl\<lparr>calls := calls cl @ [RemoveChannel ch]\<rparr>)
      | None \<Rightarrow> (None, cl\<lparr>live_channels := filter (\<lambda>c. c \<noteq> ch) (live_channels cl),
                          calls := calls cl @ [RemoveChannel ch]\<rparr>))"

record 's realtime_service =
  subscriptions :: "string \<rightharpoonup> channel"
  eventHandlers :: "string \<rightharpoonup> 's handlers"
  isConnected :: bool

definition isSubscribedToJob :: "'s realtime_service \<Rightarrow> string \<Rightarrow> bool" where
  "isSubscribedToJob svc jobId = (subscriptions svc jobId \<noteq> None)"

definition unsubscribeFromJob ::
  "error option \<Rightarrow> string \<Rightarrow> 's realtime_service \<Rightarrow> realtime_client
     \<Rightarrow> (error + unit) \<times> 's realtime_service \<times> realtime_client" where
  "unsubscribeFromJob fault jobId svc cl =
     (case subscriptions svc jobId of
        None \<Rightarrow> (Inr (), svc, cl)
      | Some ch \<Rightarrow>
          (case removeChannel fault ch cl of
             (Some e, cl1) \<Rightarrow> (Inl e, svc, cl1)
           | (None, cl1) \<Rightarrow>
               (Inr (),
                svc\<lparr>subscriptions := (subscriptions svc)(jobId := None),
                    eventHandlers := (eventHandlers svc)(jobId := None)\<rparr>,
                cl1)))"

definition install_channel ::
  "string \<Rightarrow> 's handlers \<Rightarrow> 's realtime_service \<Rightarrow> realtime_client
     \<Rightarrow> (error + channel) \<times> 's realtime_service \<times> realtime_client" where
  "install_channel jobId h svc cl =
     (case open_channel (''job-'' @ jobId) cl of
        (ch, cl1) \<Rightarrow>
          (Inr ch,
           svc\<lparr>subscriptions := (subscriptions svc)(jobId \<mapsto> ch),
               eventHandlers := (eventHandlers svc)(jobId \<mapsto> h)\<rparr>,
           cl1))"

text \<open>
  \<open>subscribeToJob(jobId, handlers)\<close>: the prior subscription, when there is one, is
  removed first; an error of that removal is thrown on and nothing is installed.
\<close>

definition subscribeToJob ::
  "error option \<Rightarrow> string \<Rightarrow> 's handlers \<Rightarrow> 's realtime_service \<Rightarrow> realtime_client
     \<Rightarrow> (error + channel) \<times> 's realtime_service \<times> realtime_client" where
  "subscribeToJob fault jobId h svc cl =
     (if subscriptions svc jobId \<noteq> None
      then (case unsubscribeFromJob fault jobId svc cl of
              (Inl e, svc1, cl1) \<Rightarrow> (Inl e, svc1, cl1)
            | (Inr u, svc1, cl1) \<Rightarrow> install_channel jobId h svc1 cl1)
      else install_channel jobId h svc cl)"

text \<open>The callback given to \<open>subscribe\<close>, run when the server reports the channel's state.\<close>

definition subscription_status ::
  "string \<Rightarrow> 's handlers \<Rightarrow> 's realtime_service \<times> 's \<Rightarrow> 's realtime_service \<times> 's" where
  "subscription_status st h = (\<lambda>(svc, s).
     (let c = (st = ''SUBSCRIBED'')
      in (svc\<lparr>isConnected := c\<rparr>,
          (case onConnectionChange h of Some f \<Rightarrow> f c s | None \<Rightarrow> s))))"

text \<open>
  The channels open on the client for a job, and the table's view of them: every job id
  has at most one open channel, the one the table holds for it.
\<close>

definition live_for :: "realtime_client \<Rightarrow> string \<Rightarrow> channel list" where
  "live_for cl jobId = filter (\<lambda>c. topic c = ''job-'' @ jobId) (live_channels cl)"

definition table_ok :: "'s realtime_service \<Rightarrow> realtime_client \<Rightarrow> bool" where
  "table_ok svc cl =
     (\<forall>jobId. live_for cl jobId = (case subscriptions svc jobId of None \<Rightarrow> [] | Some ch \<Rightarrow> [ch]))"

section \<open>ProcessingStatusComponent\<close>

text \<open>
  The elements \<open>updateStatus\<close> writes: the texts, the icon, the wrapper's class, the
  cancel button's display, the progress (bar width and percentage, both printed from the
  same number), the ticker (\<open>statusInterval\<close> set or null) and the number of
  \<open>setTimeout\<close> calls scheduled to hide the card.
\<close>

record status_view =
  jobIdText :: string
  fileNameText :: string
  jobStatusText :: string
  progressShown :: int
  statusTitle :: string
  statusDescription :: string
  statusIcon :: string
  wrapperClass :: string
  cancelDisplay :: string
  timerRunning :: bool
  hidesScheduled :: nat

record 's status_options =
  autoClose :: bool
  onStatusChange_opt :: "(job \<Rightarrow> 's \<Rightarrow> 's) option"
  onComplete :: "(job \<Rightarrow> 's \<Rightarrow> 's) option"
  onError :: "(job \<Rightarrow> 's \<Rightarrow> 's) option"

definition call_opt :: "('a \<Rightarrow> 's \<Rightarrow> 's) option \<Rightarrow> 'a \<Rightarrow> 's \<Rightarrow> 's" where
  "call_opt cb x s = (case cb of Some f \<Rightarrow> f x s | None \<Rightarrow> s)"

definition stopTimer :: "status_view \<Rightarrow> status_view" where
  "stopTimer v = (if timerRunning v then v\<lparr>timerRunning := False\<rparr> else v)"

text \<open>The \<open>switch (data.status)\<close> of \<open>updateStatus\<close>; no case matches another value.\<close>

definition status_switch :: "'s status_options \<Rightarrow> job \<Rightarrow> status_view \<times> 's \<Rightarrow> status_view \<times> 's" where
  \<open>status_switch opts data = (\<lambda>(v, s).
     if status data = Val ''pending'' then
       (v\<lparr>statusTitle := ''Warte in der Warteschlange...'',
          statusDescription := ''Ihr Dokument wird gleich verarbeitet'',
          statusIcon := ''<i class="material-icons rotating">hourglass_empty</i>'',
          wrapperClass := ''processing-status-wrapper''\<rparr>, s)
     else if status data = Val ''processing'' then
       (v\<lparr>statusTitle := ''Dokument wird verarbeitet...'',
          statusDescription := ''Marker extrahiert Text und erstellt Annotations'',
          statusIcon := ''<i class="material-icons rotating">auto_fix_high</i>'',
          wrapperClass := ''processing-status-wrapper''\<rparr>, s)
     else if status data = Val ''completed'' then
       (let v1 = stopTimer (v\<lparr>statusTitle := ''Verarbeitung abgeschlossen!'',
                    statusDescription := ''Text wurde erfolgreich extrahiert'',
                    statusIcon := ''<i class="material-icons">check_circle</i>'',
                    wrapperClass := ''processing-status-wrapper status-success'',
                    cancelDisplay := ''none''\<rparr>);
            s1 = call_opt (onComplete opts) data s;
            v2 = (if autoClose opts then v1\<lparr>hidesScheduled := Suc (hidesScheduled v1)\<rparr> else v1)
        in (v2, s1))
     else if status data = Val ''failed'' \<or> status data = Val ''error'' then
       (stopTimer (v\<lparr>statusTitle := ''Verarbeitung fehlgeschlagen'',
                    statusDescription := str_or (error_message data) ''Ein Fehler ist aufgetreten'',
                    statusIcon := ''<i class="material-icons">error</i>'',
                    wrapperClass := ''processing-status-wrapper status-error'',
                    cancelDisplay := ''none''\<rparr>),
        call_opt (onError opts) data s)
     else if status data = Val ''cancelled'' then
       (stopTimer (v\<lparr>statusTitle := ''Verarbeitung abgebrochen'',
                    statusDescription := ''Der Vorgang wurde vom Benutzer abgebrochen'',
                    statusIcon := ''<i class="material-icons">cancel</i>'',
                    wrapperClass := ''processing-status-wrapper status-error'',
                    cancelDisplay := ''none''\<rparr>), s)
     else (v, s))\<close>

definition updateStatus :: "'s status_options \<Rightarrow> job \<Rightarrow> status_view \<times> 's \<Rightarrow> status_view \<times> 's" where
  "updateStatus opts data = (\<lambda>(v, s).
     (let v1 = v\<lparr>jobIdText := str_or (Val (id_j data)) ''-'',
                 fileNameText := str_or (Val (file_name data)) ''-'',
                 jobStatusText := str_or (status data) ''unknown'',
                 progressShown := num_or_zero (progress data)\<rparr>
      in case status_switch opts data (v1, s) of
           (v2, s2) \<Rightarrow> (v2, call_opt (onStatusChange_opt opts) data s2)))"

text \<open>A sequence of updates delivered to the status view, one \<open>updateStatus\<close> call each.\<close>

fun updateStatus_all :: "'s status_options \<Rightarrow> job list \<Rightarrow> status_view \<times> 's \<Rightarrow> status_view \<times> 's" where
  "updateStatus_all opts [] vs = vs"
| "updateStatus_all opts (d # ds) vs = updateStatus_all opts ds (updateStatus opts d vs)"

section \<open>MarkerIntegrationApp: the wiring of the status view\<close>

text \<open>
  What the orchestrator's callbacks leave behind: the notifications shown (message and
  type), and the invocations of \<open>handleProcessingComplete\<close>, \<open>handleProcessingError\<close>
  and \<open>loadAnnotations\<close>, whose bodies run remote calls later.
\<close>

record app_log =
  notifications :: "(string \<times> string) list"
  processingComplete :: "job list"
  processingError :: "job list"
  loadAnnotationsFor :: "string list"

definition showNotification :: "string \<Rightarrow> string \<Rightarrow> app_log \<Rightarrow> app_log" where
  "showNotification msg ty l = l\<lparr>notifications := notifications l @ [(msg, ty)]\<rparr>"

definition handleStatusChange :: "job \<Rightarrow> app_log \<Rightarrow> app_log" where
  "handleStatusChange data l =
     (if status data = Val ''processing''
      then showNotification ''Marker Engine verarbeitet Ihr Dokument...'' ''info'' l
      else if status data = Val ''completed''
      then showNotification ''Verarbeitung erfolgreich abgeschlossen!'' ''success'' l
      else if status data = Val ''failed'' \<or> status data = Val ''error''
      then showNotification ''Verarbeitung fehlgeschlagen'' ''error'' l
      else l)"

definition handleProcessingComplete :: "job \<Rightarrow> app_log \<Rightarrow> app_log" where
  "handleProcessingComplete data l = l\<lparr>processingComplete := processingComplete l @ [data]\<rparr>"

definition handleProcessingError :: "job \<Rightarrow> app_log \<Rightarrow> app_log" where
  "handleProcessingError data l =
     showNotification (''Verarbeitungsfehler: '' @ str_or (error_message data) ''Unbekannter Fehler'') ''error''
       (l\<lparr>processingError := processingError l @ [data]\<rparr>)"

text \<open>The options the orchestrator constructs the status component with.\<close>

definition app_status_options :: "app_log status_options" where
  "app_status_options =
     \<lparr>autoClose = False,
      onStatusChange_opt = Some handleStatusChange,
      onComplete = Some handleProcessingComplete,
      onError = Some handleProcessingError\<rparr>"

text \<open>The orchestrator's \<open>handleJobUpdate(event)\<close>.\<close>

definition app_handleJobUpdate :: "job_event \<Rightarrow> status_view \<times> app_log \<Rightarrow> status_view \<times> app_log" where
  "app_handleJobUpdate ev = (\<lambda>(v, l).
     if status (je_data ev) = Val ''completed''
     then (v, l\<lparr>loadAnnotationsFor := loadAnnotationsFor l @ [id_j (je_data ev)]\<rparr>)
     else (v, l))"

text \<open>The job handlers \<open>subscribeToJobUpdates\<close> registers.\<close>

definition app_handlers :: "(status_view \<times> app_log) handlers" where
  "app_handlers =
     \<lparr>onStatusChange = Some (\<lambda>ev. updateStatus app_status_options (se_data ev)),
      onProgressUpdate = Some (\<lambda>ev. updateStatus app_status_options (pe_data ev)),
      onJobUpdate = Some app_handleJobUpdate,
      onConnectionChange = Some (\<lambda>connected (v, l).
        (v, if connected then showNotification ''Echtzeit-Verbindung hergestellt'' ''success'' l
            else showNotification ''Echtzeit-Verbindung getrennt'' ''warning'' l))\<rparr>"

section \<open>AnnotationsViewerComponent\<close>

text \<open>
  A sentiment score is a number of the service; it is compared with the constants
  \<open>0.3\<close>, \<open>-0.3\<close> and \<open>0\<close> only, and is modelled as a rational.
  \<open>annotation.sentiment_score || 0\<close> reads an absent, null or zero score as \<open>0\<close>.
\<close>

definition getHighlightClass :: "string \<Rightarrow> annotation \<Rightarrow> string" where
  "getHighlightClass mode a =
     (if mode = ''sentiment'' then
        (let score = num_or_zero (sentiment_score a)
         in if score > 3 / 10 then ''sentiment-positive''
            else if score < - (3 / 10) then ''sentiment-negative''
            else ''sentiment-neutral'')
      else if mode = ''emotion'' then
        ''emotion-'' @ toLowerCase (str_or (emotion a) ''neutral'')
      else [])"

text \<open>
  \<open>[...xs].sort(cmp)\<close>: \<open>Array.prototype.sort\<close> is a stable sort by the comparator
  (an element stays before another unless the comparator puts it after); the copy
  leaves \<open>xs\<close> as it is.
\<close>

fun insert_by :: "('a \<Rightarrow> 'a \<Rightarrow> int) \<Rightarrow> 'a \<Rightarrow> 'a list \<Rightarrow> 'a list" where
  "insert_by cmp x [] = [x]"
| "insert_by cmp x (y # ys) = (if cmp x y \<le> 0 then x # y # ys else y # insert_by cmp x ys)"

definition js_sort :: "('a \<Rightarrow> 'a \<Rightarrow> int) \<Rightarrow> 'a list \<Rightarrow> 'a list" where
  "js_sort cmp xs = foldr (insert_by cmp) xs []"

text \<open>The comparator of \<open>renderAnnotations\<close>: \<open>(a, b) => a.position - b.position\<close>\<close>

definition by_position :: "annotation \<Rightarrow> annotation \<Rightarrow> int" where
  "by_position a b = position a - position b"

text \<open>
  A rendered \<open>span.annotated-text\<close> element: its class attribute, its two data
  attributes (the index is also the argument of its \<open>onclick\<close>), its text and whether
  its class list holds \<open>selected\<close>.
\<close>

record fragment =
  f_class :: string
  f_annotation_id :: string
  f_index :: nat
  f_text :: string
  f_selected :: bool

text \<open>The detail panel, by the values \<open>showAnnotationDetails\<close> prints into it.\<close>

record details =
  d_text :: string
  d_score :: rat
  d_bar_width :: rat
  d_color :: string
  d_emotion :: string
  d_position :: int
  d_length :: nat

record viewer =
  highlightMode :: string
  annotations :: "annotation list"
  selectedAnnotation :: "annotation jsval"
  content_html :: string
  fragments :: "fragment list"
  details_content :: "details option"
  details_display :: string
  onAnnotationClick :: bool
  clicked :: "annotation list"

definition empty_state_html :: string where
  \<open>empty_state_html =
     [CHR 0x0A] @ ''        <div class="empty-state">'' @
     [CHR 0x0A] @ ''          <i class="material-icons">description</i>'' @
     [CHR 0x0A] @ ''          <p>Keine Annotations verf'' @ [CHR 0xC3, CHR 0xBC] @ ''gbar</p>'' @
     [CHR 0x0A] @ ''          <small>Laden Sie ein Dokument hoch, um zu beginnen</small>'' @
     [CHR 0x0A] @ ''        </div>'' @
     [CHR 0x0A] @ ''      ''\<close>

text \<open>The template literal appended to \<open>html\<close> for one annotation.\<close>

definition span_html :: "string \<Rightarrow> nat \<Rightarrow> annotation \<Rightarrow> string" where
  \<open>span_html mode index a =
     ''<span'' @
     [CHR 0x0A] @ ''        class="annotated-text '' @ getHighlightClass mode a @ ''"'' @
     [CHR 0x0A] @ ''        data-annotation-id="'' @ id_a a @ ''"'' @
     [CHR 0x0A] @ ''        data-index="'' @ show_nat index @ ''"'' @
     [CHR 0x0A] @ ''        onclick="annotationsViewer.selectAnnotation('' @ show_nat index @ '')"'' @
     [CHR 0x0A] @ ''      >'' @ text_a a @ ''</span> ''\<close>

definition span_fragment :: "string \<Rightarrow> nat \<Rightarrow> annotation \<Rightarrow> fragment" where
  "span_fragment mode index a =
     \<lparr>f_class = ''annotated-text '' @ getHighlightClass mode a, f_annotation_id = id_a a,
      f_index = index, f_text = text_a a, f_selected = False\<rparr>"

definition renderAnnotations :: "viewer \<Rightarrow> viewer" where
  "renderAnnotations v =
     (if annotations v = [] then v\<lparr>content_html := empty_state_html, fragments := []\<rparr>
      else
        (let sortedAnnotations = js_sort by_position (annotations v);
             indexed = enumerate 0 sortedAnnotations
         in v\<lparr>content_html := concat (map (\<lambda>(index, a). span_html (highlightMode v) index a) indexed),
              fragments := map (\<lambda>(index, a). span_fragment (highlightMode v) index a) indexed\<rparr>))"

definition loadAnnotations :: "annotation list \<Rightarrow> viewer \<Rightarrow> viewer" where
  "loadAnnotations anns v = renderAnnotations (v\<lparr>annotations := anns\<rparr>)"

definition addAnnotation :: "annotation \<Rightarrow> viewer \<Rightarrow> viewer" where
  "addAnnotation a v = renderAnnotations (v\<lparr>annotations := annotations v @ [a]\<rparr>)"

definition showAnnotationDetails :: "annotation \<Rightarrow> viewer \<Rightarrow> viewer" where
  "showAnnotationDetails a v =
     (let sentimentScore = num_or_zero (sentiment_score a);
          sentimentColor = (if sentimentScore > 0 then ''#48bb78''
                            else if sentimentScore < 0 then ''#f56565'' else ''#a0aec0'')
      in v\<lparr>details_content := Some
              \<lparr>d_text = text_a a, d_score = sentimentScore, d_bar_width = \<bar>sentimentScore\<bar> * 100,
               d_color = sentimentColor, d_emotion = str_or (emotion a) ''N/A'',
               d_position = position a, d_length = length (text_a a)\<rparr>,
           details_display := ''block''\<rparr>)"

text \<open>
  \<open>selectAnnotation(index)\<close>, as the \<open>onclick\<close> of a rendered fragment calls it.
  \<open>this.annotations[index]\<close> is \<open>undefined\<close> past the end of the array; reading a
  property of it in \<open>showAnnotationDetails\<close> then throws, after the selection has been
  written.
\<close>

definition selectAnnotation :: "nat \<Rightarrow> viewer \<Rightarrow> error option \<times> viewer" where
  "selectAnnotation index v =
     (let annotation = (if index < length (annotations v) then Val (annotations v ! index) else Undefined);
          v1 = v\<lparr>selectedAnnotation := annotation,
                 fragments := map (\<lambda>(i, el). el\<lparr>f_selected := (i = index)\<rparr>) (enumerate 0 (fragments v))\<rparr>
      in case annotation of
           Val a \<Rightarrow>
             (let v2 = showAnnotationDetails a v1
              in (None, if onAnnotationClick v2 then v2\<lparr>clicked := clicked v2 @ [a]\<rparr> else v2))
         | _ \<Rightarrow> (Some (TypeError ''Cannot read properties of undefined''), v1))"

text \<open>A click on the rendered fragment number \<open>i\<close> runs its \<open>onclick\<close> attribute.\<close>

definition click_fragment :: "nat \<Rightarrow> viewer \<Rightarrow> error option \<times> viewer" where
  "click_fragment i v =
     (if i < length (fragments v) then selectAnnotation (f_index (fragments v ! i)) v else (None, v))"

section \<open>Example data\<close>

text \<open>A job, its annotations as the change feed delivered them, and a service instance.\<close>

definition ex_job :: job where
  "ex_job = \<lparr>id_j = ''j1'', file_path = ''documents/5_report.pdf'', file_name = ''report.pdf'',
     file_size = 5242880, file_type = ''pdf'', status = Val ''completed'', progress = Val 100,
     extracted_text = Val [], markdown_output = Val ''# Report'', options = [],
     error_message = Null, created_at = 5\<rparr>"

definition ex_ann :: "string \<Rightarrow> string \<Rightarrow> int \<Rightarrow> rat jsval \<Rightarrow> annotation" where
  "ex_ann i t p sc = \<lparr>id_a = i, job_id = ''j1'', text_a = t, position = p, sentiment_score = sc,
     emotion = Null\<rparr>"

definition ex_db :: supabase where
  "ex_db = \<lparr>storage_documents = [''documents/5_report.pdf''], marker_jobs = [ex_job],
     text_annotations = [ex_ann ''b'' ''B'' 5 (Val (1 / 2)), ex_ann ''a'' ''A'' 2 (Val (- (1 / 2)))]\<rparr>"

definition ex_svc :: marker_service where
  "ex_svc = \<lparr>processingQueue = [''j1'' \<mapsto> \<lparr>q_status = ''pending'', q_progress = 0, startTime = 7\<rparr>],
     annotationCache = Map.empty\<rparr>"

definition ex_file :: upload_file where
  "ex_file = \<lparr>name = ''report.PDF'', size_f = 5242880\<rparr>"

definition ex_upload_options :: upload_options where
  "ex_upload_options = \<lparr>maxFileSize = 50 * 1024 * 1024,
     allowedTypes = [''pdf'', ''docx'', ''doc'', ''txt'', ''md'', ''html'']\<rparr>"

text \<open>An upload into empty tables.\<close>

definition ex_empty_db :: supabase where
  "ex_empty_db = \<lparr>storage_documents = [], marker_jobs = [], text_annotations = []\<rparr>"

definition ex_empty_svc :: marker_service where
  "ex_empty_svc = \<lparr>processingQueue = Map.empty, annotationCache = Map.empty\<rparr>"

text \<open>Handlers that record, in order, the callbacks they receive.\<close>

datatype callback = StatusChange status_event | ProgressUpdate progress_event | JobUpdate job_event

definition recording_handlers :: "callback list handlers" where
  "recording_handlers =
     \<lparr>onStatusChange = Some (\<lambda>ev tr. tr @ [StatusChange ev]),
      onProgressUpdate = Some (\<lambda>ev tr. tr @ [ProgressUpdate ev]),
      onJobUpdate = Some (\<lambda>ev tr. tr @ [JobUpdate ev]),
      onConnectionChange = None\<rparr>"

definition ex_payload :: payload where
  "ex_payload = \<lparr>new_row = ex_job, old_row = Some (ex_job\<lparr>status := Val ''processing''\<rparr>),
     eventType = ''UPDATE''\<rparr>"

section \<open>Sequences of subscription calls\<close>

text \<open>
  A caller's history: \<open>subscribeToJob\<close> and \<open>unsubscribeFromJob\<close> calls, each with the
  answer of the remote removal, run from a new service on a new client.
\<close>

datatype 's sub_op = Subscribe "error option" string "'s handlers" | Unsubscribe "error option" string

fun apply_op :: "'s sub_op \<Rightarrow> 's realtime_service \<times> realtime_client \<Rightarrow> 's realtime_service \<times> realtime_client" where
  "apply_op (Subscribe fault jobId h) (svc, cl) = snd (subscribeToJob fault jobId h svc cl)"
| "apply_op (Unsubscribe fault jobId) (svc, cl) = snd (unsubscribeFromJob fault jobId svc cl)"

fun apply_ops :: "'s sub_op list \<Rightarrow> 's realtime_service \<times> realtime_client \<Rightarrow> 's realtime_service \<times> realtime_client" where
  "apply_ops [] st = st"
| "apply_ops (x # xs) st = apply_ops xs (apply_op x st)"

definition fresh_service :: "'s realtime_service" where
  "fresh_service = \<lparr>subscriptions = Map.empty, eventHandlers = Map.empty, isConnected = False\<rparr>"

definition fresh_client :: realtime_client where
  "fresh_client = \<lparr>live_channels = [], calls = []\<rparr>"

text \<open>A subscription, a second one to the same job, and the removal of that one.\<close>

definition ex_first :: "(error + channel) \<times> callback list realtime_service \<times> realtime_client" where
  "ex_first = subscribeToJob None ''j1'' recording_handlers fresh_service fresh_client"

definition ex_second :: "(error + channel) \<times> callback list realtime_service \<times> realtime_client" where
  "ex_second = subscribeToJob None ''j1'' recording_handlers (fst (snd ex_first)) (snd (snd ex_first))"

definition ex_third :: "(error + unit) \<times> callback list realtime_service \<times> realtime_client" where
  "ex_third = unsubscribeFromJob None ''j1'' (fst (snd ex_second)) (snd (snd ex_second))"

section \<open>Transitions into the completed state\<close>

text \<open>
  The number of transitions into \<open>completed\<close> along a sequence of updates, \<open>prev\<close>
  being the status before the first one: an update counts when it carries
  \<open>completed\<close> and the one before it did not.
\<close>

fun completed_transitions :: "string jsval \<Rightarrow> job list \<Rightarrow> nat" where
  "completed_transitions prev [] = 0"
| "completed_transitions prev (d # ds) =
     (if status d = Val ''completed'' \<and> prev \<noteq> Val ''completed'' then 1 else 0)
       + completed_transitions (status d) ds"

text \<open>No update repeats \<open>completed\<close>: none that carries it follows one that carries it.\<close>

fun no_repeated_completed :: "string jsval \<Rightarrow> job list \<Rightarrow> bool" where
  "no_repeated_completed prev [] = True"
| "no_repeated_completed prev (d # ds) =
     ((status d = Val ''completed'' \<longrightarrow> prev \<noteq> Val ''completed'') \<and> no_repeated_completed (status d) ds)"

text \<open>A status view with its ticker running, an empty log, and the job in its earlier states.\<close>

definition ex_view :: status_view where
  "ex_view = \<lparr>jobIdText = ''-'', fileNameText = ''-'', jobStatusText = ''pending'', progressShown = 0,
     statusTitle = ''Dokument wird verarbeitet...'', statusDescription = [],
     statusIcon = [], wrapperClass = ''processing-status-wrapper'', cancelDisplay = ''none'',
     timerRunning = True, hidesScheduled = 0\<rparr>"

definition ex_log :: app_log where
  "ex_log = \<lparr>notifications = [], processingComplete = [], processingError = [], loadAnnotationsFor = []\<rparr>"

definition ex_pending :: job where
  "ex_pending = ex_job\<lparr>status := Val ''pending'', progress := Val 0, markdown_output := Null,
     extracted_text := Null\<rparr>"

definition ex_processing :: job where
  "ex_processing = ex_pending\<lparr>status := Val ''processing'', progress := Val 50\<rparr>"

text \<open>
  The row event of the worker's last update: status and progress change together
  (\<open>processing\<close>, 50 to \<open>completed\<close>, 100).
\<close>

definition ex_completion_event :: payload where
  "ex_completion_event = \<lparr>new_row = ex_job, old_row = Some ex_processing, eventType = ''UPDATE''\<rparr>"

section \<open>Example views\<close>

definition ex_viewer :: viewer where
  "ex_viewer = \<lparr>highlightMode = ''sentiment'', annotations = [], selectedAnnotation = Null,
     content_html = [], fragments = [], details_content = None, details_display = ''none'',
     onAnnotationClick = True, clicked = []\<rparr>"

text \<open>Two annotations with the same position, and the two of the change feed (positions 5, 2).\<close>

definition ex_tie_a :: annotation where
  "ex_tie_a = ex_ann ''a'' ''A'' 1 Null"

definition ex_tie_b :: annotation where
  "ex_tie_b = ex_ann ''b'' ''B'' 1 Null"

definition ex_pos5 :: annotation where
  "ex_pos5 = ex_ann ''b'' ''B'' 5 (Val (1 / 2))"

definition ex_pos2 :: annotation where
  "ex_pos2 = ex_ann ''a'' ''A'' 2 (Val (- (1 / 2)))"

text \<open>The viewer after the change feed delivered the annotations of positions 5 and 2, in that order.\<close>

definition ex_streamed :: viewer where
  "ex_streamed = addAnnotation ex_pos2 (addAnnotation ex_pos5 ex_viewer)"

section \<open>Properties of MarkerEngineService\<close>

text \<open>
  C5. Whenever the job row is read, \<open>getExtractedText\<close> returns the row's extracted
  text if that is a non-empty string; otherwise the row's markdown output if that is a
  non-empty string; otherwise the empty string. (A failed read is thrown on.)
\<close>

theorem getExtractedText_fallback:
  assumes "select_single_job fault jobId db = Inr data"
  shows "(\<forall>s. extracted_text data = Val s \<and> s \<noteq> [] \<longrightarrow> getExtractedText fault jobId db = Inr s)
       \<and> (\<forall>m. \<not> nonempty (extracted_text data) \<and> markdown_output data = Val m \<and> m \<noteq> []
              \<longrightarrow> getExtractedText fault jobId db = Inr m)
       \<and> (\<not> nonempty (extracted_text data) \<and> \<not> nonempty (markdown_output data)
              \<longrightarrow> getExtractedText fault jobId db = Inr [])"
proof -
  have r: "getExtractedText fault jobId db
             = Inr (str_or (extracted_text data) (str_or (markdown_output data) []))"
    using assms by (simp add: getExtractedText_def)
  show ?thesis
    unfolding r
    by (cases "extracted_text data"; cases "markdown_output data") auto
qed

theorem getExtractedText_fallback_witness:
  "select_single_job None ''j1'' ex_db = Inr ex_job
   \<and> getExtractedText None ''j1'' ex_db = Inr ''# Report''"
proof -
  have h: "select_single_job None ''j1'' ex_db = Inr ex_job"
    by (simp add: select_single_job_def ex_db_def ex_job_def)
  have "\<not> nonempty (extracted_text ex_job) \<and> markdown_output ex_job = Val ''# Report''"
    by (simp add: ex_job_def)
  with getExtractedText_fallback [OF h] h show ?thesis by simp
qed

text \<open>
  C6. \<open>getAnnotations\<close> returns the cached list, and leaves the service as it is, when
  the cache has an entry for the job id. Otherwise, when the query is answered, it returns
  the job's annotation rows in ascending order of position and stores that list as the
  cache entry. So a second call after a successful one returns the same list, whatever the
  remote table holds by then.
\<close>

theorem getAnnotations_cache:
  "(annotationCache svc jobId = Some cached
      \<longrightarrow> getAnnotations fault jobId svc db = (Inr cached, svc))
   \<and> (annotationCache svc jobId = None \<and> fault = None
      \<longrightarrow> (let rows = sort_key position (filter (\<lambda>a. job_id a = jobId) (text_annotations db))
           in getAnnotations fault jobId svc db
                = (Inr rows, svc\<lparr>annotationCache := (annotationCache svc)(jobId \<mapsto> rows)\<rparr>)
              \<and> sorted (map position rows)))
   \<and> (getAnnotations fault jobId svc db = (Inr xs, svc1)
      \<longrightarrow> getAnnotations fault2 jobId svc1 db2 = (Inr xs, svc1))"
  by (auto simp: getAnnotations_def select_annotations_def Let_def
           split: option.splits sum.splits)

theorem getAnnotations_cache_witness:
  "getAnnotations None ''j1'' ex_svc ex_db
     = (Inr [ex_ann ''a'' ''A'' 2 (Val (- (1 / 2))), ex_ann ''b'' ''B'' 5 (Val (1 / 2))],
        ex_svc\<lparr>annotationCache := [''j1'' \<mapsto> [ex_ann ''a'' ''A'' 2 (Val (- (1 / 2))), ex_ann ''b'' ''B'' 5 (Val (1 / 2))]]\<rparr>)
   \<and> getAnnotations None ''j1''
        (ex_svc\<lparr>annotationCache := [''j1'' \<mapsto> [ex_ann ''a'' ''A'' 2 (Val (- (1 / 2))), ex_ann ''b'' ''B'' 5 (Val (1 / 2))]]\<rparr>)
        (ex_db\<lparr>text_annotations := []\<rparr>)
     = (Inr [ex_ann ''a'' ''A'' 2 (Val (- (1 / 2))), ex_ann ''b'' ''B'' 5 (Val (1 / 2))],
        ex_svc\<lparr>annotationCache := [''j1'' \<mapsto> [ex_ann ''a'' ''A'' 2 (Val (- (1 / 2))), ex_ann ''b'' ''B'' 5 (Val (1 / 2))]]\<rparr>)"
proof -
  let ?xs = "[ex_ann ''a'' ''A'' 2 (Val (- (1 / 2))), ex_ann ''b'' ''B'' 5 (Val (1 / 2))]"
  let ?svc1 = "ex_svc\<lparr>annotationCache := [''j1'' \<mapsto> ?xs]\<rparr>"
  have miss: "annotationCache ex_svc ''j1'' = None \<and> (None :: error option) = None"
    by (simp add: ex_svc_def)
  have rows: "sort_key position (filter (\<lambda>a. job_id a = ''j1'') (text_annotations ex_db)) = ?xs"
    by (simp add: ex_db_def ex_ann_def)
  have c: "annotationCache ex_svc = Map.empty" by (simp add: ex_svc_def)
  from getAnnotations_cache [of ex_svc "''j1''" cached None ex_db ?xs ?svc1 None "ex_db\<lparr>text_annotations := []\<rparr>"]
    miss rows c
  show ?thesis by (simp add: Let_def)
qed

text \<open>
  C10. \<open>cancelJob\<close> throws the error of a failed remote update and leaves the service
  (its processing queue included) unchanged; when the remote update succeeds it removes
  the job's queue entry, keeps every other entry, and returns true. It returns true only
  when the remote update succeeded.
\<close>

theorem cancelJob_atomic:
  "(update_cancelled fault jobId db = (Some e, db1)
      \<longrightarrow> cancelJob fault jobId svc db = (Inl e, svc, db1))
   \<and> (update_cancelled fault jobId db = (None, db1)
      \<longrightarrow> (\<exists>svc'. cancelJob fault jobId svc db = (Inr True, svc', db1)
             \<and> processingQueue svc' jobId = None
             \<and> (\<forall>k. k \<noteq> jobId \<longrightarrow> processingQueue svc' k = processingQueue svc k)
             \<and> annotationCache svc' = annotationCache svc))
   \<and> ((\<exists>svc' db'. cancelJob fault jobId svc db = (Inr True, svc', db')) \<longleftrightarrow> fault = None)"
  by (cases fault) (auto simp: cancelJob_def update_cancelled_def)

theorem cancelJob_atomic_witness:
  "cancelJob (Some (RemoteError ''network'')) ''j1'' ex_svc ex_db
     = (Inl (RemoteError ''network''), ex_svc, ex_db)
   \<and> (\<exists>svc'. cancelJob None ''j1'' ex_svc ex_db
         = (Inr True, svc', snd (update_cancelled None ''j1'' ex_db))
       \<and> processingQueue svc' ''j1'' = None)"
proof -
  have a: "update_cancelled (Some (RemoteError ''network'')) ''j1'' ex_db
             = (Some (RemoteError ''network''), ex_db)"
    by (simp add: update_cancelled_def)
  have b: "update_cancelled None ''j1'' ex_db = (None, snd (update_cancelled None ''j1'' ex_db))"
    by (simp add: update_cancelled_def)
  from cancelJob_atomic [of "Some (RemoteError ''network'')" "''j1''" ex_db "RemoteError ''network''" ex_db ex_svc] a
  have 1: "cancelJob (Some (RemoteError ''network'')) ''j1'' ex_svc ex_db
     = (Inl (RemoteError ''network''), ex_svc, ex_db)" by blast
  from cancelJob_atomic [of None "''j1''" ex_db "RemoteError ''network''" "snd (update_cancelled None ''j1'' ex_db)" ex_svc] b
  have 2: "\<exists>svc'. cancelJob None ''j1'' ex_svc ex_db
         = (Inr True, svc', snd (update_cancelled None ''j1'' ex_db))
       \<and> processingQueue svc' ''j1'' = None" by blast
  from 1 2 show ?thesis by blast
qed

text \<open>
  C3. For a file that passes \<open>validateFile\<close>, a successful \<open>uploadAndProcess\<close> adds
  exactly one row to \<open>marker_jobs\<close>, the row it returns. The row has status
  \<open>pending\<close>, as the code sends it, and progress \<open>0\<close>, the schema's default for
  the column the code does not send; the local queue entry is \<open>pending\<close> with progress
  \<open>0\<close> as well.
\<close>

theorem uploadAndProcess_one_pending_row:
  assumes "fst (validateFile uopts f)"
    and "uploadAndProcess t_name t_created t_start up_fault job_fault new_id f opts svc db
           = (Inr jobData, svc', db')"
  shows "marker_jobs db' = marker_jobs db @ [jobData]
       \<and> status jobData = Val ''pending'' \<and> progress jobData = Val 0
       \<and> file_name jobData = name f \<and> file_size jobData = size_f f \<and> options jobData = opts
       \<and> processingQueue svc' (id_j jobData)
            = Some \<lparr>q_status = ''pending'', q_progress = 0, startTime = t_start\<rparr>"
  using assms(2)
  by (auto simp: uploadAndProcess_def storage_upload_def insert_job_def row_of_payload_def Let_def
           split: option.splits if_splits)

theorem uploadAndProcess_one_pending_row_witness:
  "fst (validateFile ex_upload_options ex_file)
   \<and> (\<exists>jobData svc' db'.
        uploadAndProcess 5 6 7 None None ''j2'' ex_file [(''extract_images'', True)] ex_empty_svc ex_empty_db
          = (Inr jobData, svc', db')
        \<and> marker_jobs db' = [jobData]
        \<and> status jobData = Val ''pending'' \<and> progress jobData = Val 0)"
proof -
  have v: "fst (validateFile ex_upload_options ex_file)"
    by (simp add: validateFile_def ex_upload_options_def ex_file_def split_pop_def
          toLowerCase_def Let_def)
  obtain jobData svc' db' where
    r: "uploadAndProcess 5 6 7 None None ''j2'' ex_file [(''extract_images'', True)] ex_empty_svc ex_empty_db
          = (Inr jobData, svc', db')"
    by (simp add: uploadAndProcess_def storage_upload_def insert_job_def Let_def ex_empty_db_def)
  from uploadAndProcess_one_pending_row [OF v r]
  have "marker_jobs db' = marker_jobs ex_empty_db @ [jobData]
        \<and> status jobData = Val ''pending'' \<and> progress jobData = Val 0" by simp
  then have "marker_jobs db' = [jobData] \<and> status jobData = Val ''pending'' \<and> progress jobData = Val 0"
    by (simp add: ex_empty_db_def)
  with v r show ?thesis by blast
qed

section \<open>Properties of AnnotationsViewerComponent\<close>

text \<open>
  C4. In sentiment mode the class of an annotation depends on its score only: a score
  above \<open>0.3\<close> gives the positive bucket, a score below \<open>-0.3\<close> the negative one,
  and every other score, \<open>0.3\<close>, \<open>-0.3\<close> and \<open>0\<close> among them, the neutral one.
\<close>

theorem sentiment_bucket:
  "(num_or_zero (sentiment_score a) > 3 / 10
      \<longrightarrow> getHighlightClass ''sentiment'' a = ''sentiment-positive'')
   \<and> (num_or_zero (sentiment_score a) < - (3 / 10)
      \<longrightarrow> getHighlightClass ''sentiment'' a = ''sentiment-negative'')
   \<and> (- (3 / 10) \<le> num_or_zero (sentiment_score a) \<and> num_or_zero (sentiment_score a) \<le> 3 / 10
      \<longrightarrow> getHighlightClass ''sentiment'' a = ''sentiment-neutral'')
   \<and> (sentiment_score a = sentiment_score b
      \<longrightarrow> getHighlightClass ''sentiment'' a = getHighlightClass ''sentiment'' b)"
  by (auto simp: getHighlightClass_def Let_def)

theorem sentiment_bucket_witness:
  "getHighlightClass ''sentiment'' (ex_ann ''p'' ''P'' 0 (Val (1 / 2))) = ''sentiment-positive''
   \<and> getHighlightClass ''sentiment'' (ex_ann ''n'' ''N'' 1 (Val (- (1 / 2)))) = ''sentiment-negative''
   \<and> getHighlightClass ''sentiment'' (ex_ann ''u'' ''U'' 2 (Val (3 / 10))) = ''sentiment-neutral''
   \<and> getHighlightClass ''sentiment'' (ex_ann ''l'' ''L'' 3 (Val (- (3 / 10)))) = ''sentiment-neutral''
   \<and> getHighlightClass ''sentiment'' (ex_ann ''z'' ''Z'' 4 (Val 0)) = ''sentiment-neutral''
   \<and> getHighlightClass ''sentiment'' (ex_ann ''z'' ''Z'' 4 (Val 0))
       = getHighlightClass ''sentiment'' (ex_ann ''y'' ''Y'' 9 (Val 0))"
  using sentiment_bucket [of "ex_ann ''p'' ''P'' 0 (Val (1 / 2))" "ex_ann ''p'' ''P'' 0 (Val (1 / 2))"]
        sentiment_bucket [of "ex_ann ''n'' ''N'' 1 (Val (- (1 / 2)))" "ex_ann ''n'' ''N'' 1 (Val (- (1 / 2)))"]
        sentiment_bucket [of "ex_ann ''u'' ''U'' 2 (Val (3 / 10))" "ex_ann ''u'' ''U'' 2 (Val (3 / 10))"]
        sentiment_bucket [of "ex_ann ''l'' ''L'' 3 (Val (- (3 / 10)))" "ex_ann ''l'' ''L'' 3 (Val (- (3 / 10)))"]
        sentiment_bucket [of "ex_ann ''z'' ''Z'' 4 (Val 0)" "ex_ann ''y'' ''Y'' 9 (Val 0)"]
  by (simp add: ex_ann_def getHighlightClass_def)

section \<open>Properties of RealtimeAnnotationsService\<close>

text \<open>
  C2. With the three job handlers registered, a row-change event runs: the status-change
  callback exactly when the new status differs from the previous one; after it the
  progress callback exactly when the new progress differs from the previous one; after
  both the generic job-update callback, always.
\<close>

theorem handleJobUpdate_demux:
  assumes "onStatusChange h = Some f" and "onProgressUpdate h = Some g" and "onJobUpdate h = Some k"
  shows "handleJobUpdate jobId p h s =
           k \<lparr>je_jobId = jobId, je_eventType = eventType p, je_data = new_row p, oldData = old_row p\<rparr>
             ((if progress (new_row p) \<noteq> old_progress (old_row p)
               then g \<lparr>pe_jobId = jobId, pe_progress = progress (new_row p), pe_data = new_row p\<rparr>
               else id)
                ((if status (new_row p) \<noteq> old_status (old_row p)
                  then f \<lparr>se_jobId = jobId, oldStatus = old_status (old_row p),
                          newStatus = status (new_row p), se_data = new_row p\<rparr>
                  else id) s))"
  using assms by (simp add: handleJobUpdate_def Let_def)

theorem handleJobUpdate_demux_witness:
  "onStatusChange recording_handlers = Some (\<lambda>ev tr. tr @ [StatusChange ev])
   \<and> onProgressUpdate recording_handlers = Some (\<lambda>ev tr. tr @ [ProgressUpdate ev])
   \<and> onJobUpdate recording_handlers = Some (\<lambda>ev tr. tr @ [JobUpdate ev])
   \<and> handleJobUpdate ''j1'' ex_payload recording_handlers []
       = [StatusChange \<lparr>se_jobId = ''j1'', oldStatus = Val ''processing'', newStatus = Val ''completed'',
                        se_data = ex_job\<rparr>,
          JobUpdate \<lparr>je_jobId = ''j1'', je_eventType = ''UPDATE'', je_data = ex_job,
                     oldData = Some (ex_job\<lparr>status := Val ''processing''\<rparr>)\<rparr>]"
proof -
  have a: "onStatusChange recording_handlers = Some (\<lambda>ev tr. tr @ [StatusChange ev])"
    and b: "onProgressUpdate recording_handlers = Some (\<lambda>ev tr. tr @ [ProgressUpdate ev])"
    and c: "onJobUpdate recording_handlers = Some (\<lambda>ev tr. tr @ [JobUpdate ev])"
    by (simp_all add: recording_handlers_def)
  from handleJobUpdate_demux [OF a b c, of "''j1''" ex_payload "[]"] a b c
  show ?thesis
    by (simp add: ex_payload_def ex_job_def old_status_def old_progress_def)
qed

lemma live_for_entry:
  assumes "table_ok svc cl" and "subscriptions svc jobId = Some ch"
  shows "live_for cl jobId = [ch]" and "topic ch = ''job-'' @ jobId"
proof -
  from assms show l: "live_for cl jobId = [ch]"
    by (auto simp: table_ok_def dest: spec [of _ jobId])
  then have "ch \<in> set (live_for cl jobId)" by simp
  then show "topic ch = ''job-'' @ jobId" by (simp add: live_for_def)
qed

lemma live_for_cases:
  assumes "table_ok svc cl"
  shows "live_for cl j = (case subscriptions svc j of None \<Rightarrow> [] | Some c \<Rightarrow> [c])"
  using assms by (simp add: table_ok_def)

lemma table_ok_calls:
  "table_ok svc (cl\<lparr>calls := cs\<rparr>) = table_ok svc cl"
  by (simp add: table_ok_def live_for_def)

lemma table_ok_remove:
  assumes ok: "table_ok svc cl" and e: "subscriptions svc jobId = Some ch"
  shows "table_ok (svc\<lparr>subscriptions := (subscriptions svc)(jobId := None),
                      eventHandlers := (eventHandlers svc)(jobId := None)\<rparr>)
                  (cl\<lparr>live_channels := filter (\<lambda>c. c \<noteq> ch) (live_channels cl), calls := cs\<rparr>)"
  unfolding table_ok_def
proof (intro allI)
  fix j
  let ?cl = "cl\<lparr>live_channels := filter (\<lambda>c. c \<noteq> ch) (live_channels cl), calls := cs\<rparr>"
  have f: "live_for ?cl j = filter (\<lambda>c. c \<noteq> ch) (live_for cl j)"
    by (simp add: live_for_def conj_commute)
  show "live_for ?cl j =
        (case subscriptions (svc\<lparr>subscriptions := (subscriptions svc)(jobId := None),
                      eventHandlers := (eventHandlers svc)(jobId := None)\<rparr>) j of
           None \<Rightarrow> [] | Some c \<Rightarrow> [c])"
  proof (cases "j = jobId")
    case True
    with live_for_entry(1) [OF ok e] f show ?thesis by simp
  next
    case False
    have t: "topic ch = ''job-'' @ jobId" by (rule live_for_entry(2) [OF ok e])
    show ?thesis
    proof (cases "subscriptions svc j")
      case None
      with live_for_cases [OF ok, of j] f False show ?thesis by simp
    next
      case (Some c)
      from live_for_entry(2) [OF ok Some] t False have "c \<noteq> ch" by auto
      with live_for_cases [OF ok, of j] Some f False show ?thesis by simp
    qed
  qed
qed

lemma table_ok_unsubscribe:
  assumes "table_ok svc cl"
  shows "table_ok (fst (snd (unsubscribeFromJob fault jobId svc cl)))
                  (snd (snd (unsubscribeFromJob fault jobId svc cl)))"
proof (cases "subscriptions svc jobId")
  case None
  with assms show ?thesis by (simp add: unsubscribeFromJob_def)
next
  case (Some ch)
  show ?thesis
  proof (cases fault)
    case None
    with Some table_ok_remove [OF assms Some] show ?thesis
      by (simp add: unsubscribeFromJob_def removeChannel_def)
  next
    case (Some e)
    with \<open>subscriptions svc jobId = Some ch\<close> assms show ?thesis
      by (simp add: unsubscribeFromJob_def removeChannel_def table_ok_calls)
  qed
qed

lemma table_ok_install:
  assumes ok: "table_ok svc cl" and e: "subscriptions svc jobId = None"
  shows "table_ok (fst (snd (install_channel jobId h svc cl)))
                  (snd (snd (install_channel jobId h svc cl)))"
  unfolding table_ok_def
proof (intro allI)
  fix j
  from live_for_cases [OF ok, of j] e
  show "live_for (snd (snd (install_channel jobId h svc cl))) j =
        (case subscriptions (fst (snd (install_channel jobId h svc cl))) j of
           None \<Rightarrow> [] | Some c \<Rightarrow> [c])"
    by (cases "j = jobId") (auto simp: install_channel_def open_channel_def Let_def live_for_def)
qed

lemma unsubscribe_ok_entry:
  "unsubscribeFromJob fault jobId svc cl = (Inr u, svc', cl') \<Longrightarrow> subscriptions svc' jobId = None"
  by (auto simp: unsubscribeFromJob_def removeChannel_def split: option.splits)

lemma table_ok_subscribe:
  assumes ok: "table_ok svc cl"
  shows "table_ok (fst (snd (subscribeToJob fault jobId h svc cl)))
                  (snd (snd (subscribeToJob fault jobId h svc cl)))"
proof (cases "subscriptions svc jobId")
  case None
  with table_ok_install [OF ok None] show ?thesis by (simp add: subscribeToJob_def)
next
  case (Some ch)
  obtain r svc1 cl1 where u: "unsubscribeFromJob fault jobId svc cl = (r, svc1, cl1)"
    by (cases "unsubscribeFromJob fault jobId svc cl") auto
  from table_ok_unsubscribe [OF ok, of fault jobId] u have ok1: "table_ok svc1 cl1" by simp
  show ?thesis
  proof (cases r)
    case (Inl e)
    with Some u ok1 show ?thesis by (simp add: subscribeToJob_def)
  next
    case (Inr x)
    with u unsubscribe_ok_entry have "subscriptions svc1 jobId = None" by blast
    from table_ok_install [OF ok1 this] Some u Inr show ?thesis by (simp add: subscribeToJob_def)
  qed
qed

lemma table_ok_apply_op: "table_ok (fst st) (snd st) \<Longrightarrow> table_ok (fst (apply_op x st)) (snd (apply_op x st))"
  by (cases x; cases st) (simp_all add: table_ok_subscribe table_ok_unsubscribe)

lemma table_ok_apply_ops:
  "table_ok (fst st) (snd st) \<Longrightarrow> table_ok (fst (apply_ops xs st)) (snd (apply_ops xs st))"
  by (induction xs arbitrary: st) (simp_all add: table_ok_apply_op)

lemma table_ok_fresh: "table_ok fresh_service fresh_client"
  by (simp add: table_ok_def fresh_service_def fresh_client_def live_for_def)

lemma resubscribe_calls:
  assumes "subscriptions svc jobId = Some ch"
    and "subscribeToJob fault jobId h svc cl = (Inr ch', svc', cl')"
  shows "calls cl' = calls cl @ [RemoveChannel ch, OpenChannel ch'] \<and> subscriptions svc' jobId = Some ch'
         \<and> eventHandlers svc' jobId = Some h \<and> topic ch' = ''job-'' @ jobId"
  using assms
  by (cases fault)
     (auto simp: subscribeToJob_def unsubscribeFromJob_def removeChannel_def install_channel_def
                 open_channel_def Let_def)

text \<open>
  C8. A successful \<open>unsubscribeFromJob\<close> leaves no entry for the job id, so
  \<open>isSubscribedToJob\<close> is false after it. \<open>subscribeToJob\<close> on a job id that has an
  entry calls \<open>removeChannel\<close> exactly once, on the prior handle, and then opens and
  installs the new channel; when that removal fails nothing is opened and the table is as
  before. After any sequence of such calls from a new service, every job id has at most one
  open channel, and it has one exactly when the table has an entry for it.
\<close>

theorem subscription_table:
  "(unsubscribeFromJob fault jobId svc cl = (Inr u, svc1, cl1) \<longrightarrow> \<not> isSubscribedToJob svc1 jobId)
   \<and> (subscriptions svc jobId = Some ch \<and> subscribeToJob fault jobId h svc cl = (Inr ch', svc2, cl2)
        \<longrightarrow> calls cl2 = calls cl @ [RemoveChannel ch, OpenChannel ch']
            \<and> subscriptions svc2 jobId = Some ch' \<and> isSubscribedToJob svc2 jobId)
   \<and> (subscriptions svc jobId = Some ch \<and> subscribeToJob fault jobId h svc cl = (Inl e, svc3, cl3)
        \<longrightarrow> calls cl3 = calls cl @ [RemoveChannel ch] \<and> svc3 = svc)
   \<and> (\<forall>j. length (live_for (snd (apply_ops ops (fresh_service, fresh_client))) j) \<le> 1
          \<and> (isSubscribedToJob (fst (apply_ops ops (fresh_service, fresh_client))) j
               \<longleftrightarrow> live_for (snd (apply_ops ops (fresh_service, fresh_client))) j \<noteq> []))"
proof (intro conjI impI allI)
  assume "unsubscribeFromJob fault jobId svc cl = (Inr u, svc1, cl1)"
  then show "\<not> isSubscribedToJob svc1 jobId"
    by (simp add: isSubscribedToJob_def unsubscribe_ok_entry)
next
  assume a: "subscriptions svc jobId = Some ch \<and> subscribeToJob fault jobId h svc cl = (Inr ch', svc2, cl2)"
  with resubscribe_calls [of svc jobId ch fault h cl ch' svc2 cl2]
  show "calls cl2 = calls cl @ [RemoveChannel ch, OpenChannel ch']"
    and "subscriptions svc2 jobId = Some ch'" and "isSubscribedToJob svc2 jobId"
    by (simp_all add: isSubscribedToJob_def)
next
  assume a: "subscriptions svc jobId = Some ch \<and> subscribeToJob fault jobId h svc cl = (Inl e, svc3, cl3)"
  then show "calls cl3 = calls cl @ [RemoveChannel ch]" and "svc3 = svc"
    by (cases fault;
        auto simp: subscribeToJob_def unsubscribeFromJob_def removeChannel_def install_channel_def
                   open_channel_def Let_def)+
next
  fix j
  let ?st = "apply_ops ops (fresh_service, fresh_client)"
  have ok: "table_ok (fst ?st) (snd ?st)"
    by (rule table_ok_apply_ops) (simp add: table_ok_fresh)
  from live_for_cases [OF ok, of j]
  show "length (live_for (snd ?st) j) \<le> 1"
    and "isSubscribedToJob (fst ?st) j \<longleftrightarrow> live_for (snd ?st) j \<noteq> []"
    by (auto simp: isSubscribedToJob_def split: option.splits)
qed


theorem subscription_table_witness:
  "subscriptions (fst (snd ex_first)) ''j1'' = Some \<lparr>topic = ''job-j1'', handle = 0\<rparr>
   \<and> fst ex_second = Inr \<lparr>topic = ''job-j1'', handle = 2\<rparr>
   \<and> calls (snd (snd ex_second))
        = [OpenChannel \<lparr>topic = ''job-j1'', handle = 0\<rparr>,
           RemoveChannel \<lparr>topic = ''job-j1'', handle = 0\<rparr>,
           OpenChannel \<lparr>topic = ''job-j1'', handle = 2\<rparr>]
   \<and> isSubscribedToJob (fst (snd ex_second)) ''j1''
   \<and> fst ex_third = Inr ()
   \<and> \<not> isSubscribedToJob (fst (snd ex_third)) ''j1''"
proof -
  let ?c0 = "\<lparr>topic = ''job-j1'', handle = 0\<rparr>"
  let ?c2 = "\<lparr>topic = ''job-j1'', handle = 2\<rparr>"
  have f1: "subscriptions (fst (snd ex_first)) ''j1'' = Some ?c0"
    and c1: "calls (snd (snd ex_first)) = [OpenChannel ?c0]"
    by (simp_all add: ex_first_def subscribeToJob_def install_channel_def open_channel_def
          fresh_service_def fresh_client_def Let_def)
  have f2: "fst ex_second = Inr ?c2"
    using f1 c1
    by (simp add: ex_second_def subscribeToJob_def unsubscribeFromJob_def removeChannel_def
          install_channel_def open_channel_def Let_def)
  have e2: "subscribeToJob None ''j1'' recording_handlers (fst (snd ex_first)) (snd (snd ex_first))
                  = (Inr ?c2, fst (snd ex_second), snd (snd ex_second))"
    using f2 unfolding ex_second_def [symmetric] by (metis prod.collapse)
  from subscription_table [where fault = None and jobId = "''j1''" and svc = "fst (snd ex_first)"
      and cl = "snd (snd ex_first)" and ch = ?c0 and h = recording_handlers and ch' = ?c2
      and ?svc2.0 = "fst (snd ex_second)" and ?cl2.0 = "snd (snd ex_second)"
      and u = "()" and ?svc1.0 = fresh_service and ?cl1.0 = fresh_client
      and e = "RemoteError []" and ?svc3.0 = fresh_service and ?cl3.0 = fresh_client
      and ops = "[]"] f1 e2
  have t2: "calls (snd (snd ex_second))
              = calls (snd (snd ex_first)) @ [RemoveChannel ?c0, OpenChannel ?c2]
            \<and> subscriptions (fst (snd ex_second)) ''j1'' = Some ?c2
            \<and> isSubscribedToJob (fst (snd ex_second)) ''j1''"
    by blast
  from t2 c1
  have r2: "calls (snd (snd ex_second)) = [OpenChannel ?c0, RemoveChannel ?c0, OpenChannel ?c2]"
    and s2: "subscriptions (fst (snd ex_second)) ''j1'' = Some ?c2"
    and i2: "isSubscribedToJob (fst (snd ex_second)) ''j1''"
    by simp_all
  have f3: "fst ex_third = Inr ()"
    using s2 by (simp add: ex_third_def unsubscribeFromJob_def removeChannel_def)
  have e3: "unsubscribeFromJob None ''j1'' (fst (snd ex_second)) (snd (snd ex_second))
                  = (Inr (), fst (snd ex_third), snd (snd ex_third))"
    using f3 unfolding ex_third_def [symmetric] by (metis prod.collapse)
  from subscription_table [where fault = None and jobId = "''j1''" and svc = "fst (snd ex_second)"
      and cl = "snd (snd ex_second)" and u = "()" and ?svc1.0 = "fst (snd ex_third)"
      and ?cl1.0 = "snd (snd ex_third)"
      and ch = ?c0 and h = recording_handlers and ch' = ?c2
      and ?svc2.0 = fresh_service and ?cl2.0 = fresh_client
      and e = "RemoteError []" and ?svc3.0 = fresh_service and ?cl3.0 = fresh_client
      and ops = "[]"] e3
  have r3: "\<not> isSubscribedToJob (fst (snd ex_third)) ''j1''" by blast
  from f1 f2 r2 i2 f3 r3 show ?thesis by simp
qed

section \<open>Properties of ProcessingStatusComponent\<close>

lemma updateStatus_processingComplete:
  "processingComplete (snd (updateStatus app_status_options d (v, l)))
     = processingComplete l @ (if status d = Val ''completed'' then [d] else [])"
  by (simp add: updateStatus_def status_switch_def app_status_options_def call_opt_def Let_def
        handleStatusChange_def handleProcessingComplete_def handleProcessingError_def
        showNotification_def)

lemma updateStatus_all_processingComplete:
  "processingComplete (snd (updateStatus_all app_status_options ds (v, l)))
     = processingComplete l @ filter (\<lambda>d. status d = Val ''completed'') ds"
proof (induction ds arbitrary: v l)
  case Nil
  show ?case by simp
next
  case (Cons d ds)
  obtain v1 l1 where u: "updateStatus app_status_options d (v, l) = (v1, l1)"
    by (cases "updateStatus app_status_options d (v, l)") auto
  from updateStatus_processingComplete [of d v l] u
  have "processingComplete l1 = processingComplete l @ (if status d = Val ''completed'' then [d] else [])"
    by simp
  with Cons.IH [of v1 l1] u show ?case by simp
qed

lemma no_repeat_count:
  "no_repeated_completed prev ds
     \<Longrightarrow> length (filter (\<lambda>d. status d = Val ''completed'') ds) = completed_transitions prev ds"
  by (induction ds arbitrary: prev) auto

text \<open>
  C1, as the code has it. For any options, one \<open>updateStatus\<close> call runs the completion
  callback exactly when the update carries status \<open>completed\<close> (and then the
  status-change callback): the component keeps no previous status to compare with. So, with
  the orchestrator's options, the completion callback is invoked once for every update that
  carries \<open>completed\<close>, in the order of delivery and with that update's data. It is
  invoked exactly once per transition into \<open>completed\<close> along the sequences in
  which no update repeats \<open>completed\<close>.
\<close>

theorem onComplete_per_completed_update:
  "snd (updateStatus opts d (v, s))
     = call_opt (onStatusChange_opt opts) d
         (if status d = Val ''completed'' then call_opt (onComplete opts) d s
          else if status d = Val ''failed'' \<or> status d = Val ''error'' then call_opt (onError opts) d s
          else s)
   \<and> processingComplete (snd (updateStatus_all app_status_options ds (v, l)))
       = processingComplete l @ filter (\<lambda>d. status d = Val ''completed'') ds
   \<and> (no_repeated_completed prev ds
        \<longrightarrow> length (processingComplete (snd (updateStatus_all app_status_options ds (v, l))))
            = length (processingComplete l) + completed_transitions prev ds)"
proof (intro conjI)
  show "snd (updateStatus opts d (v, s))
     = call_opt (onStatusChange_opt opts) d
         (if status d = Val ''completed'' then call_opt (onComplete opts) d s
          else if status d = Val ''failed'' \<or> status d = Val ''error'' then call_opt (onError opts) d s
          else s)"
    by (simp add: updateStatus_def status_switch_def Let_def)
qed (simp_all add: updateStatus_all_processingComplete no_repeat_count)

theorem onComplete_per_completed_update_witness:
  "no_repeated_completed Undefined [ex_pending, ex_processing, ex_job]
   \<and> processingComplete (snd (updateStatus_all app_status_options [ex_pending, ex_processing, ex_job]
        (ex_view, ex_log))) = [ex_job]
   \<and> completed_transitions Undefined [ex_pending, ex_processing, ex_job] = 1"
proof -
  have n: "no_repeated_completed Undefined [ex_pending, ex_processing, ex_job]"
    by (simp add: ex_pending_def ex_processing_def ex_job_def)
  have c: "completed_transitions Undefined [ex_pending, ex_processing, ex_job] = 1"
    by (simp add: ex_pending_def ex_processing_def ex_job_def)
  have f: "filter (\<lambda>d. status d = Val ''completed'') [ex_pending, ex_processing, ex_job] = [ex_job]"
    by (simp add: ex_pending_def ex_processing_def ex_job_def)
  from onComplete_per_completed_update [where ds = "[ex_pending, ex_processing, ex_job]"
      and v = ex_view and l = ex_log and prev = Undefined and opts = app_status_options
      and d = ex_job and s = ex_log] n c f
  show ?thesis by (simp add: ex_log_def)
qed

text \<open>
  C1, as stated, fails. The updates \<open>pending\<close>, \<open>processing\<close>, \<open>completed\<close>,
  \<open>completed\<close> hold one transition into \<open>completed\<close> and invoke the callback
  twice. So does the single row event that changes status and progress together, which
  the demultiplexer delivers to \<open>updateStatus\<close> as a status change and as a progress
  update.
\<close>

theorem onComplete_once_counterexample:
  "completed_transitions Undefined [ex_pending, ex_processing, ex_job, ex_job] = 1
   \<and> processingComplete (snd (updateStatus_all app_status_options
        [ex_pending, ex_processing, ex_job, ex_job] (ex_view, ex_log))) = [ex_job, ex_job]
   \<and> processingComplete (snd (handleJobUpdate ''j1'' ex_completion_event app_handlers
        (updateStatus_all app_status_options [ex_pending, ex_processing] (ex_view, ex_log))))
       = [ex_job, ex_job]"
proof -
  have a: "completed_transitions Undefined [ex_pending, ex_processing, ex_job, ex_job] = 1"
    by (simp add: ex_pending_def ex_processing_def ex_job_def)
  have b: "processingComplete (snd (updateStatus_all app_status_options
        [ex_pending, ex_processing, ex_job, ex_job] (ex_view, ex_log))) = [ex_job, ex_job]"
    unfolding updateStatus_all_processingComplete
    by (simp add: ex_pending_def ex_processing_def ex_job_def ex_log_def)
  obtain v0 l0 where s0: "updateStatus_all app_status_options [ex_pending, ex_processing] (ex_view, ex_log) = (v0, l0)"
    by (cases "updateStatus_all app_status_options [ex_pending, ex_processing] (ex_view, ex_log)") auto
  from updateStatus_all_processingComplete [of "[ex_pending, ex_processing]" ex_view ex_log] s0
  have l0: "processingComplete l0 = []"
    by (simp add: ex_pending_def ex_processing_def ex_job_def ex_log_def)
  obtain v1 l1 where s1: "updateStatus app_status_options ex_job (v0, l0) = (v1, l1)"
    by (cases "updateStatus app_status_options ex_job (v0, l0)") auto
  from updateStatus_processingComplete [of ex_job v0 l0] s1 l0
  have l1: "processingComplete l1 = [ex_job]" by (simp add: ex_job_def)
  obtain v2 l2 where s2: "updateStatus app_status_options ex_job (v1, l1) = (v2, l2)"
    by (cases "updateStatus app_status_options ex_job (v1, l1)") auto
  from updateStatus_processingComplete [of ex_job v1 l1] s2 l1
  have l2: "processingComplete l2 = [ex_job, ex_job]" by (simp add: ex_job_def)
  have d: "status (new_row ex_completion_event) \<noteq> old_status (old_row ex_completion_event)"
          "progress (new_row ex_completion_event) \<noteq> old_progress (old_row ex_completion_event)"
          "new_row ex_completion_event = ex_job"
    by (simp_all add: ex_completion_event_def old_status_def old_progress_def ex_processing_def
          ex_pending_def ex_job_def)
  have c: "processingComplete (snd (handleJobUpdate ''j1'' ex_completion_event app_handlers
        (updateStatus_all app_status_options [ex_pending, ex_processing] (ex_view, ex_log))))
       = [ex_job, ex_job]"
    using d s1 s2 l2 unfolding s0
    by (simp add: handleJobUpdate_def app_handlers_def app_handleJobUpdate_def Let_def)
  from a b c show ?thesis by simp
qed

section \<open>Rendering and selection in AnnotationsViewerComponent\<close>

lemma insert_by_position: "insert_by by_position x ys = insort_key position x ys"
  by (induction ys) (simp_all add: by_position_def)

lemma js_sort_position: "js_sort by_position xs = sort_key position xs"
  by (induction xs) (simp_all add: js_sort_def insert_by_position)

lemma js_sort_same:
  assumes m: "mset xs = mset ys"
    and t: "\<forall>k. filter (\<lambda>a. position a = k) xs = filter (\<lambda>a. position a = k) ys"
  shows "js_sort by_position xs = js_sort by_position ys"
proof -
  have "sort_key position xs = sort_key position ys"
  proof (rule properties_for_sort_key)
    show "mset (sort_key position ys) = mset xs" using m by simp
  next
    fix k
    have "filter (\<lambda>x. position k = position x) (sort_key position ys)
            = filter (\<lambda>x. position x = position k) (sort_key position ys)"
      by (rule filter_cong) auto
    also have "\<dots> = filter (\<lambda>x. position x = position k) ys" by (rule sort_key_stable)
    also have "\<dots> = filter (\<lambda>x. position x = position k) xs" using t by simp
    also have "\<dots> = filter (\<lambda>x. position k = position x) xs" by (rule filter_cong) auto
    finally show "filter (\<lambda>x. position k = position x) (sort_key position ys)
                    = filter (\<lambda>x. position k = position x) xs" .
  next
    show "sorted (map position (sort_key position ys))" by simp
  qed
  then show ?thesis by (simp add: js_sort_position)
qed

lemma distinct_filter_short:
  "distinct (map f xs) \<Longrightarrow> length (filter (\<lambda>a. f a = k) xs) \<le> 1"
proof (induction xs)
  case Nil
  show ?case by simp
next
  case (Cons x xs)
  show ?case
  proof (cases "f x = k")
    case True
    with Cons.prems have "filter (\<lambda>a. f a = k) xs = []"
      by (force simp: filter_empty_conv image_iff)
    with True show ?thesis by simp
  next
    case False
    with Cons show ?thesis by simp
  qed
qed

lemma short_mset_eq:
  assumes "mset as = mset bs" and "length as \<le> 1"
  shows "as = bs"
proof (cases as)
  case Nil
  with assms show ?thesis by simp
next
  case (Cons a as')
  with assms(2) have "as = [a]" by simp
  with assms(1) have "mset bs = {#a#}" by simp
  then have "bs = [a]" by (cases bs) (auto simp: add_eq_conv_ex)
  with \<open>as = [a]\<close> show ?thesis by simp
qed

lemma distinct_positions_ties:
  assumes "mset xs = mset ys" and "distinct (map position xs)"
  shows "filter (\<lambda>a. position a = k) xs = filter (\<lambda>a. position a = k) ys"
proof (rule short_mset_eq)
  from assms(1) show "mset (filter (\<lambda>a. position a = k) xs) = mset (filter (\<lambda>a. position a = k) ys)"
    by simp
  from assms(2) show "length (filter (\<lambda>a. position a = k) xs) \<le> 1"
    by (rule distinct_filter_short)
qed

lemma render_same:
  assumes "mset xs = mset ys"
    and "\<forall>k. filter (\<lambda>a. position a = k) xs = filter (\<lambda>a. position a = k) ys"
  shows "loadAnnotations xs v = (loadAnnotations ys v)\<lparr>annotations := xs\<rparr>"
proof -
  from assms(1) have e: "xs = [] \<longleftrightarrow> ys = []" by (metis mset_zero_iff)
  from js_sort_same [OF assms] e show ?thesis
    by (auto simp: loadAnnotations_def renderAnnotations_def Let_def)
qed

lemma render_idem: "renderAnnotations (renderAnnotations v) = renderAnnotations v"
  by (simp add: renderAnnotations_def Let_def)

text \<open>
  C7, as the code has it. Two input lists that hold the same annotations, with the
  annotations of equal position in the same relative order, render to the same markup and
  the same fragments; so do any two orderings of annotations with pairwise distinct
  positions. The fragments follow the stable sort of the input: ascending by position,
  annotations of equal position in input order. Rendering again changes nothing, and the
  input list is left as it was.
\<close>

theorem render_order:
  "(mset xs = mset ys \<and> (\<forall>k. filter (\<lambda>a. position a = k) xs = filter (\<lambda>a. position a = k) ys)
      \<longrightarrow> content_html (loadAnnotations xs v) = content_html (loadAnnotations ys v)
          \<and> fragments (loadAnnotations xs v) = fragments (loadAnnotations ys v))
   \<and> (mset xs = mset ys \<and> distinct (map position xs)
      \<longrightarrow> content_html (loadAnnotations xs v) = content_html (loadAnnotations ys v)
          \<and> fragments (loadAnnotations xs v) = fragments (loadAnnotations ys v))
   \<and> fragments (loadAnnotations xs v)
       = map (\<lambda>(i, a). span_fragment (highlightMode v) i a) (enumerate 0 (js_sort by_position xs))
   \<and> sorted (map position (js_sort by_position xs))
   \<and> mset (js_sort by_position xs) = mset xs
   \<and> (\<forall>k. filter (\<lambda>a. position a = k) (js_sort by_position xs) = filter (\<lambda>a. position a = k) xs)
   \<and> renderAnnotations (loadAnnotations xs v) = loadAnnotations xs v
   \<and> annotations (loadAnnotations xs v) = xs"
proof (intro conjI impI allI)
  assume a: "mset xs = mset ys \<and> (\<forall>k. filter (\<lambda>a. position a = k) xs = filter (\<lambda>a. position a = k) ys)"
  with render_same [of xs ys v] have "loadAnnotations xs v = (loadAnnotations ys v)\<lparr>annotations := xs\<rparr>"
    by blast
  then show "content_html (loadAnnotations xs v) = content_html (loadAnnotations ys v)"
    and "fragments (loadAnnotations xs v) = fragments (loadAnnotations ys v)"
    by simp_all
next
  assume a: "mset xs = mset ys \<and> distinct (map position xs)"
  then have t: "\<forall>k. filter (\<lambda>a. position a = k) xs = filter (\<lambda>a. position a = k) ys"
    by (simp add: distinct_positions_ties)
  with a render_same [of xs ys v] have "loadAnnotations xs v = (loadAnnotations ys v)\<lparr>annotations := xs\<rparr>"
    by blast
  then show "content_html (loadAnnotations xs v) = content_html (loadAnnotations ys v)"
    and "fragments (loadAnnotations xs v) = fragments (loadAnnotations ys v)"
    by simp_all
next
  show "fragments (loadAnnotations xs v)
       = map (\<lambda>(i, a). span_fragment (highlightMode v) i a) (enumerate 0 (js_sort by_position xs))"
    by (simp add: loadAnnotations_def renderAnnotations_def Let_def js_sort_def)
next
  show "sorted (map position (js_sort by_position xs))" by (simp add: js_sort_position)
next
  show "mset (js_sort by_position xs) = mset xs" by (simp add: js_sort_position)
next
  fix k
  show "filter (\<lambda>a. position a = k) (js_sort by_position xs) = filter (\<lambda>a. position a = k) xs"
    by (simp add: js_sort_position sort_key_stable)
next
  show "renderAnnotations (loadAnnotations xs v) = loadAnnotations xs v"
    by (simp add: loadAnnotations_def render_idem)
next
  show "annotations (loadAnnotations xs v) = xs"
    by (simp add: loadAnnotations_def renderAnnotations_def Let_def)
qed


theorem render_order_witness:
  "mset [ex_pos5, ex_pos2] = mset [ex_pos2, ex_pos5]
   \<and> distinct (map position [ex_pos5, ex_pos2])
   \<and> content_html (loadAnnotations [ex_pos5, ex_pos2] ex_viewer)
       = content_html (loadAnnotations [ex_pos2, ex_pos5] ex_viewer)
   \<and> map f_text (fragments (loadAnnotations [ex_pos5, ex_pos2] ex_viewer)) = [''A'', ''B'']
   \<and> map f_index (fragments (loadAnnotations [ex_pos5, ex_pos2] ex_viewer)) = [0, 1]"
proof -
  have m: "mset [ex_pos5, ex_pos2] = mset [ex_pos2, ex_pos5]" by simp
  have d: "distinct (map position [ex_pos5, ex_pos2])"
    by (simp add: ex_pos5_def ex_pos2_def ex_ann_def)
  have s: "js_sort by_position [ex_pos5, ex_pos2] = [ex_pos2, ex_pos5]"
    by (simp add: js_sort_def by_position_def ex_pos5_def ex_pos2_def ex_ann_def)
  from render_order [of "[ex_pos5, ex_pos2]" "[ex_pos2, ex_pos5]" ex_viewer] m d
  have c: "content_html (loadAnnotations [ex_pos5, ex_pos2] ex_viewer)
             = content_html (loadAnnotations [ex_pos2, ex_pos5] ex_viewer)"
    and f: "fragments (loadAnnotations [ex_pos5, ex_pos2] ex_viewer)
       = map (\<lambda>(i, a). span_fragment (highlightMode ex_viewer) i a)
           (enumerate 0 (js_sort by_position [ex_pos5, ex_pos2]))"
    by blast+
  from f s have "map f_text (fragments (loadAnnotations [ex_pos5, ex_pos2] ex_viewer)) = [''A'', ''B'']"
    and "map f_index (fragments (loadAnnotations [ex_pos5, ex_pos2] ex_viewer)) = [0, 1]"
    by (simp_all add: span_fragment_def ex_pos5_def ex_pos2_def ex_ann_def)
  with m d c show ?thesis by blast
qed

text \<open>
  C7, as stated, fails: two annotations of equal position render in input order, so the
  two orderings of the same annotations give different markup.
\<close>

theorem render_order_counterexample:
  "mset [ex_tie_a, ex_tie_b] = mset [ex_tie_b, ex_tie_a]
   \<and> content_html (loadAnnotations [ex_tie_a, ex_tie_b] ex_viewer)
       \<noteq> content_html (loadAnnotations [ex_tie_b, ex_tie_a] ex_viewer)
   \<and> map f_text (fragments (loadAnnotations [ex_tie_a, ex_tie_b] ex_viewer)) = [''A'', ''B'']
   \<and> map f_text (fragments (loadAnnotations [ex_tie_b, ex_tie_a] ex_viewer)) = [''B'', ''A'']"
proof -
  have m: "mset [ex_tie_a, ex_tie_b] = mset [ex_tie_b, ex_tie_a]" by simp
  have s1: "js_sort by_position [ex_tie_a, ex_tie_b] = [ex_tie_a, ex_tie_b]"
    and s2: "js_sort by_position [ex_tie_b, ex_tie_a] = [ex_tie_b, ex_tie_a]"
    by (simp_all add: js_sort_def by_position_def ex_tie_a_def ex_tie_b_def ex_ann_def)
  have h1: "content_html (loadAnnotations [ex_tie_a, ex_tie_b] ex_viewer)
              = span_html ''sentiment'' 0 ex_tie_a @ span_html ''sentiment'' 1 ex_tie_b"
    and h2: "content_html (loadAnnotations [ex_tie_b, ex_tie_a] ex_viewer)
              = span_html ''sentiment'' 0 ex_tie_b @ span_html ''sentiment'' 1 ex_tie_a"
    and f1: "map f_text (fragments (loadAnnotations [ex_tie_a, ex_tie_b] ex_viewer)) = [''A'', ''B'']"
    and f2: "map f_text (fragments (loadAnnotations [ex_tie_b, ex_tie_a] ex_viewer)) = [''B'', ''A'']"
    using s1 s2
    by (simp_all add: loadAnnotations_def renderAnnotations_def Let_def ex_viewer_def
          span_fragment_def ex_tie_a_def ex_tie_b_def ex_ann_def)
  have n: "span_html ''sentiment'' 0 ex_tie_a @ span_html ''sentiment'' 1 ex_tie_b
             \<noteq> span_html ''sentiment'' 0 ex_tie_b @ span_html ''sentiment'' 1 ex_tie_a"
    by (simp add: span_html_def getHighlightClass_def ex_tie_a_def ex_tie_b_def ex_ann_def)
  from m h1 h2 f1 f2 n show ?thesis by simp
qed

lemma ex_streamed_state:
  "annotations ex_streamed = [ex_pos5, ex_pos2]"
  "fragments ex_streamed = [span_fragment ''sentiment'' 0 ex_pos2, span_fragment ''sentiment'' 1 ex_pos5]"
  "onAnnotationClick ex_streamed"
  by (simp_all add: ex_streamed_def addAnnotation_def renderAnnotations_def Let_def ex_viewer_def
        js_sort_def by_position_def ex_pos5_def ex_pos2_def ex_ann_def)

text \<open>
  C9 on the code. The annotations of positions 5 and 2 arrive in that order; the view
  renders the fragment of position 2 (text A) first. A click on that first fragment marks
  it, and only it, as selected, and fills the detail panel from the first element of the
  unsorted list: text B, position 5. \<open>selectAnnotation\<close> indexes \<open>this.annotations\<close>
  with an index that \<open>renderAnnotations\<close> took from the sorted copy.
\<close>

theorem selectAnnotation_unsorted_mismatch:
  "map f_text (fragments ex_streamed) = [''A'', ''B'']
   \<and> map position (annotations ex_streamed) = [5, 2]
   \<and> fst (click_fragment 0 ex_streamed) = None
   \<and> map f_selected (fragments (snd (click_fragment 0 ex_streamed))) = [True, False]
   \<and> map_option d_text (details_content (snd (click_fragment 0 ex_streamed))) = Some ''B''
   \<and> map_option d_position (details_content (snd (click_fragment 0 ex_streamed))) = Some 5
   \<and> selectedAnnotation (snd (click_fragment 0 ex_streamed)) = Val ex_pos5"
  by (simp add: ex_streamed_state click_fragment_def selectAnnotation_def showAnnotationDetails_def
        span_fragment_def Let_def ex_pos5_def ex_pos2_def ex_ann_def)

text \<open>
  When the list is already in ascending order of position the two indexings agree, and a
  click fills the detail panel from the clicked fragment's own annotation.
\<close>

lemma select_sorted_own_data:
  assumes "sorted (map position xs)" and "i < length xs"
  shows "fst (click_fragment i (loadAnnotations xs v)) = None
       \<and> map_option d_text (details_content (snd (click_fragment i (loadAnnotations xs v))))
           = Some (f_text (fragments (loadAnnotations xs v) ! i))
       \<and> f_annotation_id (fragments (loadAnnotations xs v) ! i) = id_a (xs ! i)
       \<and> selectedAnnotation (snd (click_fragment i (loadAnnotations xs v))) = Val (xs ! i)"
proof -
  from assms(1) have s: "js_sort by_position xs = xs"
    by (simp add: js_sort_position sort_key_id_if_sorted)
  from assms(2) have ne: "xs \<noteq> []" by auto
  have fr: "fragments (loadAnnotations xs v)
              = map (\<lambda>(k, a). span_fragment (highlightMode v) k a) (enumerate 0 xs)"
    and an: "annotations (loadAnnotations xs v) = xs"
    using s ne by (simp_all add: loadAnnotations_def renderAnnotations_def Let_def)
  from assms(2) have ix: "fragments (loadAnnotations xs v) ! i = span_fragment (highlightMode v) i (xs ! i)"
    by (simp add: fr nth_enumerate_eq)
  from assms(2) have len: "i < length (fragments (loadAnnotations xs v))" by (simp add: fr)
  show ?thesis
    using assms(2) len
    by (simp add: click_fragment_def selectAnnotation_def showAnnotationDetails_def Let_def ix an
          span_fragment_def)
qed

end
